theory Spec2Isabelle
  imports Complex_Main "HOL-Library.AList" "HOL-Library.Sublist"
begin

section \<open>Python values, errors and the external collaborators\<close>

text \<open>
  Values that travel through the request options. A Python \<open>dict\<close> with string keys is an
  association list in insertion order with distinct keys; \<open>float\<close> carries the rational
  value of a finite double; \<open>PObject\<close> stands for any other object (an open file, a
  session), known by its identity only.
\<close>

datatype pyval =
    PNone
  | PBool bool
  | PInt int
  | PFloat rat
  | PStr string
  | PBytes string
  | PList "pyval list"
  | PTuple "pyval list"
  | PDict "(string \<times> pyval) list"
  | PObject nat

datatype pytype =
  NoneT | BoolT | IntT | FloatT | StrT | BytesT | ListT | TupleT | DictT | ObjectT

fun py_type :: "pyval \<Rightarrow> pytype" where
  "py_type PNone = NoneT"
| "py_type (PBool _) = BoolT"
| "py_type (PInt _) = IntT"
| "py_type (PFloat _) = FloatT"
| "py_type (PStr _) = StrT"
| "py_type (PBytes _) = BytesT"
| "py_type (PList _) = ListT"
| "py_type (PTuple _) = TupleT"
| "py_type (PDict _) = DictT"
| "py_type (PObject _) = ObjectT"

text \<open>\<open>isinstance(v, (t1, ..., tn))\<close>: the class of \<open>v\<close> is one of the classes or a
  subclass of one; among the classes above the only subclass relation is \<open>bool\<close> below
  \<open>int\<close>.\<close>

definition isinstance :: "pyval \<Rightarrow> pytype list \<Rightarrow> bool" where
  "isinstance v ts = (py_type v \<in> set ts \<or> (py_type v = BoolT \<and> IntT \<in> set ts))"

text \<open>The exceptions the code raises or lets through, as values. The messages of
  \<open>TypeError\<close> and \<open>AssertionError\<close>, which the interpreter and the assertion library
  compose, are not modelled.\<close>

datatype error =
    ValueError string
  | TypeError
  | KeyError string
  | AttributeError string
  | AssertionError
  | RequestException string
  | Error string
  | JSONDecodeError
  | JSONPathError

type_synonym params = "(string \<times> pyval) list"

section \<open>request\_config.py: the configuration store\<close>

text \<open>
  \<open>RequestConfig\<close> objects are mutable and shared by reference between the builder of the
  specification and the dispatcher, so they live in an explicit store: a reference is an
  index into \<open>stores\<close>, and \<open>RequestConfig()\<close> allocates the next index. \<open>sent\<close> records,
  in order, every call the session of the transport has received.
\<close>

datatype HTTPMethod = GET | POST | PUT | DELETE | PATCH | HEAD | OPTIONS | CONNECT | TRACE

record world =
  stores :: "params list"
  sent :: "(HTTPMethod \<times> string \<times> params) list"

definition RequestConfig_init :: "world \<Rightarrow> nat \<times> world" where
  "RequestConfig_init w = (length (stores w), w\<lparr>stores := stores w @ [[]]\<rparr>)"

definition parameters :: "nat \<Rightarrow> world \<Rightarrow> params" where
  "parameters s w = stores w ! s"

definition set_parameters :: "nat \<Rightarrow> params \<Rightarrow> world \<Rightarrow> world" where
  "set_parameters s ps w = w\<lparr>stores := (stores w)[s := ps]\<rparr>"

definition RequestConfig_getitem :: "nat \<Rightarrow> string \<Rightarrow> world \<Rightarrow> error + pyval" where
  "RequestConfig_getitem s key w =
     (case map_of (parameters s w) key of None \<Rightarrow> Inl (KeyError key) | Some v \<Rightarrow> Inr v)"

definition RequestConfig_setitem :: "nat \<Rightarrow> string \<Rightarrow> pyval \<Rightarrow> world \<Rightarrow> world" where
  "RequestConfig_setitem s key v w = set_parameters s (AList.update key v (parameters s w)) w"

definition RequestConfig_update_message :: "string \<Rightarrow> string" where
  "RequestConfig_update_message k =
     ''Key '' @ k @ '' must be a string and value must be a string, number or dict''"

text \<open>A call \<open>f(a, ..., **kwargs)\<close> raises \<open>TypeError\<close> when a keyword repeats the name of
  a parameter that is already bound.\<close>

definition binds :: "string list \<Rightarrow> params \<Rightarrow> bool" where
  "binds names kwargs = list_all (\<lambda>k. k \<notin> set names) (map fst kwargs)"

text \<open>
  The loop of \<open>update\<close> over the keyword arguments, in their order. Keyword names are
  strings, so the first check of the loop body (\<open>not isinstance(k, str)\<close>) never fires and
  is left out. An entry is written before the next one is checked.
\<close>

fun RequestConfig_update_loop :: "nat \<Rightarrow> params \<Rightarrow> world \<Rightarrow> (error + unit) \<times> world" where
  "RequestConfig_update_loop s [] w = (Inr (), w)"
| "RequestConfig_update_loop s ((k, v) # kwargs) w =
     (if v \<noteq> PNone \<and> \<not> isinstance v [StrT, IntT, FloatT, DictT, ListT]
      then (Inl (ValueError (RequestConfig_update_message k)), w)
      else RequestConfig_update_loop s kwargs (RequestConfig_setitem s k v w))"

text \<open>\<open>update(self, **kwargs)\<close>: a keyword named \<open>self\<close> fails when the call is bound,
  before the body runs.\<close>

definition RequestConfig_update :: "nat \<Rightarrow> params \<Rightarrow> world \<Rightarrow> (error + unit) \<times> world" where
  "RequestConfig_update s kwargs w =
     (if \<not> binds [''self''] kwargs then (Inl TypeError, w)
      else RequestConfig_update_loop s kwargs w)"

definition RequestConfig_clear :: "nat \<Rightarrow> world \<Rightarrow> world" where
  "RequestConfig_clear s w = set_parameters s [] w"

text \<open>\<open>d.update(other)\<close> on dicts: the entries of \<open>other\<close> are written into \<open>d\<close> in
  their order.\<close>

definition dict_update :: "params \<Rightarrow> params \<Rightarrow> params" where
  "dict_update d other = fold (\<lambda>(k, v). AList.update k v) other d"

definition RequestConfig_copy :: "nat \<Rightarrow> world \<Rightarrow> nat \<times> world" where
  "RequestConfig_copy s w =
     (let (new_config, w1) = RequestConfig_init w
      in (new_config,
          set_parameters new_config
            (dict_update (parameters new_config w1) (parameters s w1)) w1))"

text \<open>The value test of the loop of \<open>update\<close>.\<close>

definition accepted :: "pyval \<Rightarrow> bool" where
  "accepted v = (v = PNone \<or> isinstance v [StrT, IntT, FloatT, DictT, ListT])"

text \<open>The mutations of a store the interface offers.\<close>

datatype store_op = SetItem string pyval | Update params | Clear

fun apply_store_op :: "store_op \<Rightarrow> nat \<Rightarrow> world \<Rightarrow> world" where
  "apply_store_op (SetItem k v) s w = RequestConfig_setitem s k v w"
| "apply_store_op (Update kwargs) s w = snd (RequestConfig_update s kwargs w)"
| "apply_store_op Clear s w = RequestConfig_clear s w"

section \<open>request\_specs.py and the specification builder of builder.py\<close>

record RequestSpecs =
  spec_base_url :: pyval
  spec_query_params :: pyval
  spec_data :: pyval
  spec_headers :: pyval
  spec_cookies :: pyval
  spec_files :: pyval
  spec_auth :: pyval
  spec_stream :: pyval
  spec_proxies :: pyval
  spec_verify :: pyval
  spec_cert :: pyval
  spec_json_data :: pyval

definition RequestSpecs_init :: RequestSpecs where
  "RequestSpecs_init =
     \<lparr>spec_base_url = PNone, spec_query_params = PNone, spec_data = PNone,
      spec_headers = PNone, spec_cookies = PNone, spec_files = PNone, spec_auth = PNone,
      spec_stream = PNone, spec_proxies = PNone, spec_verify = PNone, spec_cert = PNone,
      spec_json_data = PNone\<rparr>"

record ConfigBuilder =
  cb_request_specs :: RequestSpecs
  cb_request_config :: nat

definition ConfigBuilder_init :: "pyval \<Rightarrow> world \<Rightarrow> ConfigBuilder \<times> world" where
  "ConfigBuilder_init url w =
     (let (config, w1) = RequestConfig_init w
      in (\<lparr>cb_request_specs = RequestSpecs_init\<lparr>spec_base_url := url\<rparr>,
           cb_request_config = config\<rparr>, w1))"

definition given :: "pyval \<Rightarrow> world \<Rightarrow> ConfigBuilder \<times> world" where
  "given url w = ConfigBuilder_init url w"

definition ConfigBuilder_base_url :: "pyval \<Rightarrow> ConfigBuilder \<Rightarrow> world \<Rightarrow> ConfigBuilder \<times> world" where
  "ConfigBuilder_base_url url cb w =
     (if url \<noteq> PNone
      then (cb\<lparr>cb_request_specs := (cb_request_specs cb)\<lparr>spec_base_url := url\<rparr>\<rparr>, w)
      else (cb, w))"

definition ConfigBuilder_params :: "pyval \<Rightarrow> ConfigBuilder \<Rightarrow> world \<Rightarrow> ConfigBuilder \<times> world" where
  "ConfigBuilder_params query_params cb w =
     (if query_params \<noteq> PNone
      then (let cb1 = cb\<lparr>cb_request_specs := (cb_request_specs cb)\<lparr>spec_query_params := query_params\<rparr>\<rparr>
            in (cb1, RequestConfig_setitem (cb_request_config cb1) ''params''
                       (spec_query_params (cb_request_specs cb1)) w))
      else (cb, w))"

definition ConfigBuilder_data :: "pyval \<Rightarrow> ConfigBuilder \<Rightarrow> world \<Rightarrow> ConfigBuilder \<times> world" where
  "ConfigBuilder_data data cb w =
     (if data \<noteq> PNone
      then (let cb1 = cb\<lparr>cb_request_specs := (cb_request_specs cb)\<lparr>spec_data := data\<rparr>\<rparr>
            in (cb1, RequestConfig_setitem (cb_request_config cb1) ''data''
                       (spec_data (cb_request_specs cb1)) w))
      else (cb, w))"

definition ConfigBuilder_json_data :: "pyval \<Rightarrow> ConfigBuilder \<Rightarrow> world \<Rightarrow> ConfigBuilder \<times> world" where
  "ConfigBuilder_json_data json_data cb w =
     (if json_data \<noteq> PNone
      then (let cb1 = cb\<lparr>cb_request_specs := (cb_request_specs cb)\<lparr>spec_json_data := json_data\<rparr>\<rparr>
            in (cb1, RequestConfig_setitem (cb_request_config cb1) ''json''
                       (spec_json_data (cb_request_specs cb1)) w))
      else (cb, w))"

definition ConfigBuilder_headers :: "pyval \<Rightarrow> ConfigBuilder \<Rightarrow> world \<Rightarrow> ConfigBuilder \<times> world" where
  "ConfigBuilder_headers headers cb w =
     (if headers \<noteq> PNone
      then (let cb1 = cb\<lparr>cb_request_specs := (cb_request_specs cb)\<lparr>spec_headers := headers\<rparr>\<rparr>
            in (cb1, RequestConfig_setitem (cb_request_config cb1) ''headers''
                       (spec_headers (cb_request_specs cb1)) w))
      else (cb, w))"

definition ConfigBuilder_cookies :: "pyval \<Rightarrow> ConfigBuilder \<Rightarrow> world \<Rightarrow> ConfigBuilder \<times> world" where
  "ConfigBuilder_cookies cookies cb w =
     (if cookies \<noteq> PNone
      then (let cb1 = cb\<lparr>cb_request_specs := (cb_request_specs cb)\<lparr>spec_cookies := cookies\<rparr>\<rparr>
            in (cb1, RequestConfig_setitem (cb_request_config cb1) ''cookies''
                       (spec_cookies (cb_request_specs cb1)) w))
      else (cb, w))"

definition ConfigBuilder_auth :: "pyval \<Rightarrow> ConfigBuilder \<Rightarrow> world \<Rightarrow> ConfigBuilder \<times> world" where
  "ConfigBuilder_auth auth cb w =
     (if auth \<noteq> PNone
      then (let cb1 = cb\<lparr>cb_request_specs := (cb_request_specs cb)\<lparr>spec_auth := auth\<rparr>\<rparr>
            in (cb1, RequestConfig_setitem (cb_request_config cb1) ''auth''
                       (spec_auth (cb_request_specs cb1)) w))
      else (cb, w))"

definition ConfigBuilder_files :: "pyval \<Rightarrow> ConfigBuilder \<Rightarrow> world \<Rightarrow> ConfigBuilder \<times> world" where
  "ConfigBuilder_files files cb w =
     (if files \<noteq> PNone
      then (let cb1 = cb\<lparr>cb_request_specs := (cb_request_specs cb)\<lparr>spec_files := files\<rparr>\<rparr>
            in (cb1, RequestConfig_setitem (cb_request_config cb1) ''files''
                       (spec_files (cb_request_specs cb1)) w))
      else (cb, w))"

definition ConfigBuilder_proxies :: "pyval \<Rightarrow> ConfigBuilder \<Rightarrow> world \<Rightarrow> ConfigBuilder \<times> world" where
  "ConfigBuilder_proxies proxies cb w =
     (if proxies \<noteq> PNone
      then (let cb1 = cb\<lparr>cb_request_specs := (cb_request_specs cb)\<lparr>spec_proxies := proxies\<rparr>\<rparr>
            in (cb1, RequestConfig_setitem (cb_request_config cb1) ''proxies''
                       (spec_proxies (cb_request_specs cb1)) w))
      else (cb, w))"

definition ConfigBuilder_stream :: "pyval \<Rightarrow> ConfigBuilder \<Rightarrow> world \<Rightarrow> ConfigBuilder \<times> world" where
  "ConfigBuilder_stream stream cb w =
     (if stream \<noteq> PNone
      then (let cb1 = cb\<lparr>cb_request_specs := (cb_request_specs cb)\<lparr>spec_stream := stream\<rparr>\<rparr>
            in (cb1, RequestConfig_setitem (cb_request_config cb1) ''stream''
                       (spec_stream (cb_request_specs cb1)) w))
      else (cb, w))"

definition ConfigBuilder_ssl_verify :: "pyval \<Rightarrow> ConfigBuilder \<Rightarrow> world \<Rightarrow> ConfigBuilder \<times> world" where
  "ConfigBuilder_ssl_verify verify cb w =
     (if verify \<noteq> PNone
      then (let cb1 = cb\<lparr>cb_request_specs := (cb_request_specs cb)\<lparr>spec_verify := verify\<rparr>\<rparr>
            in (cb1, RequestConfig_setitem (cb_request_config cb1) ''verify''
                       (spec_verify (cb_request_specs cb1)) w))
      else (cb, w))"

definition ConfigBuilder_cert :: "pyval \<Rightarrow> ConfigBuilder \<Rightarrow> world \<Rightarrow> ConfigBuilder \<times> world" where
  "ConfigBuilder_cert cert cb w =
     (if cert \<noteq> PNone
      then (let cb1 = cb\<lparr>cb_request_specs := (cb_request_specs cb)\<lparr>spec_cert := cert\<rparr>\<rparr>
            in (cb1, RequestConfig_setitem (cb_request_config cb1) ''cert''
                       (spec_cert (cb_request_specs cb1)) w))
      else (cb, w))"

section \<open>Responses and JSON documents\<close>

text \<open>
  What \<open>response.json()\<close> returns: \<open>None\<close>, \<open>bool\<close>, \<open>int\<close>, \<open>float\<close> (the rational
  value of a finite double), \<open>str\<close>, \<open>list\<close> and \<open>dict\<close> with string keys (an association
  list with distinct keys).
\<close>

datatype json =
    JNull
  | JBool bool
  | JInt int
  | JFloat rat
  | JStr string
  | JList "json list"
  | JObj "(string \<times> json) list"

text \<open>Python's \<open>==\<close> on such values: numbers compare by value, and \<open>bool\<close> is a number
  (\<open>True == 1\<close>, \<open>1 == 1.0\<close>); lists compare element by element; two dicts are equal when
  they have the same number of keys and every key of the first has an equal value in the
  second.\<close>

fun num_of :: "json \<Rightarrow> rat option" where
  "num_of (JBool b) = Some (if b then 1 else 0)"
| "num_of (JInt i) = Some (of_int i)"
| "num_of (JFloat r) = Some r"
| "num_of _ = None"

fun py_eq :: "json \<Rightarrow> json \<Rightarrow> bool"
  and py_eq_list :: "json list \<Rightarrow> json list \<Rightarrow> bool"
  and py_eq_items :: "(string \<times> json) list \<Rightarrow> (string \<times> json) list \<Rightarrow> bool"
where
  "py_eq JNull b = (b = JNull)"
| "py_eq (JBool p) b = (num_of b = Some (if p then 1 else 0))"
| "py_eq (JInt i) b = (num_of b = Some (of_int i))"
| "py_eq (JFloat r) b = (num_of b = Some r)"
| "py_eq (JStr s) b = (b = JStr s)"
| "py_eq (JList xs) b = (case b of JList ys \<Rightarrow> py_eq_list xs ys | _ \<Rightarrow> False)"
| "py_eq (JObj d) b =
     (case b of JObj e \<Rightarrow> length d = length e \<and> py_eq_items d e | _ \<Rightarrow> False)"
| "py_eq_list [] ys = (ys = [])"
| "py_eq_list (x # xs) ys =
     (case ys of [] \<Rightarrow> False | y # ys' \<Rightarrow> py_eq x y \<and> py_eq_list xs ys')"
| "py_eq_items [] e = True"
| "py_eq_items ((k, v) # d) e =
     (case map_of e k of None \<Rightarrow> False | Some v' \<Rightarrow> py_eq v v' \<and> py_eq_items d e)"

text \<open>Python's \<open>item in container\<close>: membership by \<open>==\<close> in a list, key lookup in a dict
  (which hashes the item first, and lists and dicts are unhashable), substring test in a
  string; the other values are not containers.\<close>

fun hashable :: "json \<Rightarrow> bool" where
  "hashable (JList _) = False"
| "hashable (JObj _) = False"
| "hashable _ = True"

fun py_in :: "json \<Rightarrow> json \<Rightarrow> error + bool" where
  "py_in item (JList xs) = Inr (list_ex (\<lambda>x. py_eq x item) xs)"
| "py_in item (JObj d) =
     (if hashable item then Inr (list_ex (\<lambda>(k, v). py_eq (JStr k) item) d)
      else Inl TypeError)"
| "py_in item (JStr s) =
     (case item of JStr t \<Rightarrow> Inr (sublist t s)
      | _ \<Rightarrow> Inl TypeError)"
| "py_in item _ = Inl TypeError"

text \<open>A \<open>requests.Response\<close>: the attributes the expectations below read. \<open>resp_json\<close> is the
  outcome of \<open>response.json()\<close>, the parsed body or the parse error it raises.\<close>

record response =
  status_code :: int
  resp_json :: "error + json"

text \<open>The property \<open>ok\<close> of \<open>requests.Response\<close>: \<open>raise_for_status()\<close> raises for a
  status from 400 up to 599, and \<open>ok\<close> is \<open>False\<close> exactly then.\<close>

definition Response_ok :: "response \<Rightarrow> bool" where
  "Response_ok r = (\<not> (400 \<le> status_code r \<and> status_code r < 600))"

text \<open>The collaborators outside the repository: \<open>urllib.parse.urljoin\<close> (which raises on
  arguments it cannot join), \<open>requests.Session.request\<close> once its call is bound,
  \<open>json.dumps\<close> and \<open>jsonpath.findall\<close>.\<close>

record env =
  urljoin :: "pyval \<Rightarrow> string \<Rightarrow> error + string"
  session_request :: "HTTPMethod \<Rightarrow> string \<Rightarrow> params \<Rightarrow> error + response"
  json_dumps :: "pyval \<Rightarrow> string"
  findall :: "string \<Rightarrow> json \<Rightarrow> error + json list"

section \<open>request.py: the request service\<close>

record RequestService =
  service_base_url :: pyval

definition RequestService_init :: "pyval \<Rightarrow> RequestService" where
  "RequestService_init url = \<lparr>service_base_url = url\<rparr>"

definition status_code_is_success :: "response \<Rightarrow> bool" where
  "status_code_is_success r = (200 \<le> status_code r \<and> status_code r \<le> 299)"

text \<open>The keyword parameters of \<open>requests.Session.request(self, method, url, ...)\<close>
  after \<open>method\<close> and \<open>url\<close>. The call
  \<open>self._session.request(method=method, url=url, **kwargs)\<close> raises \<open>TypeError\<close> when a
  keyword is none of them: it repeats \<open>method\<close> or \<open>url\<close>, or the session does not know
  it.\<close>

definition session_request_options :: "string list" where
  "session_request_options =
     [''params'', ''data'', ''headers'', ''cookies'', ''files'', ''auth'', ''timeout'',
      ''allow_redirects'', ''proxies'', ''hooks'', ''stream'', ''verify'', ''cert'', ''json'']"

definition session_binds :: "params \<Rightarrow> bool" where
  "session_binds kwargs = list_all (\<lambda>k. k \<in> set session_request_options) (map fst kwargs)"

text \<open>\<open>_request\<close>: the URL is joined first; then the session is called, and when the
  call is bound the session has received the method, the URL and the keyword arguments.
  A \<open>RequestException\<close> comes back as \<open>Error\<close>, any other exception passes through. The
  two logging calls write to the log only.\<close>

definition RequestService_request ::
  "env \<Rightarrow> RequestService \<Rightarrow> HTTPMethod \<Rightarrow> string \<Rightarrow> params \<Rightarrow> world \<Rightarrow> (error + response) \<times> world"
where
  "RequestService_request ev svc method endpoint kwargs w =
     (case urljoin ev (service_base_url svc) endpoint of
        Inl e \<Rightarrow> (Inl e, w)
      | Inr url \<Rightarrow>
          if \<not> session_binds kwargs then (Inl TypeError, w)
          else
            (let w1 = w\<lparr>sent := sent w @ [(method, url, kwargs)]\<rparr>
             in case session_request ev method url kwargs of
                  Inl (RequestException e) \<Rightarrow> (Inl (Error (''Request Error: '' @ e)), w1)
                | Inl e \<Rightarrow> (Inl e, w1)
                | Inr r \<Rightarrow> (Inr r, w1)))"

text \<open>The nine verb methods \<open>get\<close>, \<open>post\<close>, ... differ in the method only: each is
  \<open>self._request(method=M, endpoint=endpoint, **kwargs)\<close>.\<close>

definition RequestService_verb ::
  "env \<Rightarrow> HTTPMethod \<Rightarrow> RequestService \<Rightarrow> string \<Rightarrow> params \<Rightarrow> world \<Rightarrow> (error + response) \<times> world"
where
  "RequestService_verb ev method svc endpoint kwargs w =
     (if \<not> binds [''self'', ''endpoint''] kwargs
      then (Inl TypeError, w)
      else if \<not> binds [''self'', ''method'', ''endpoint''] kwargs
      then (Inl TypeError, w)
      else RequestService_request ev svc method endpoint kwargs w)"

definition data_json_message :: string where
  "data_json_message = ''At least one of 'data' or 'json' arguments must be provided''"

definition RequestService_handle_data :: "env \<Rightarrow> params \<Rightarrow> error + params" where
  "RequestService_handle_data ev kwargs =
     (if list_all (\<lambda>key. key \<in> set (map fst kwargs)) [''data'', ''json'']
      then Inl (ValueError data_json_message)
      else case map_of kwargs ''data'' of
             Some (PDict d) \<Rightarrow> Inr (AList.update ''data'' (PStr (json_dumps ev (PDict d))) kwargs)
           | _ \<Rightarrow> Inr kwargs)"

section \<open>builder.py: the dispatcher\<close>

record RequestBuilder =
  rb_request :: RequestService
  rb_request_config :: nat
  rb_response :: "response option"

text \<open>\<open>__init__\<close> sets the two attributes only: \<open>__response\<close> does not exist until a verb
  method assigns it, which is \<open>None\<close> here.\<close>

definition RequestBuilder_init :: "RequestService \<Rightarrow> nat \<Rightarrow> RequestBuilder" where
  "RequestBuilder_init request config =
     \<lparr>rb_request = request, rb_request_config = config, rb_response = None\<rparr>"

definition ConfigBuilder_when :: "ConfigBuilder \<Rightarrow> RequestBuilder" where
  "ConfigBuilder_when cb =
     (let request = RequestService_init (spec_base_url (cb_request_specs cb))
      in RequestBuilder_init request (cb_request_config cb))"

text \<open>The nine verb methods of the dispatcher, which differ in the method of the service
  they call: the overrides go through \<open>update\<close>, then the service is called with all the
  parameters of the store as keyword arguments, and its response is kept.\<close>

definition RequestBuilder_verb ::
  "env \<Rightarrow> HTTPMethod \<Rightarrow> RequestBuilder \<Rightarrow> string \<Rightarrow> params \<Rightarrow> world
     \<Rightarrow> (error + RequestBuilder) \<times> world"
where
  "RequestBuilder_verb ev method rb endpoint kwargs w =
     (if \<not> binds [''self'', ''endpoint''] kwargs
      then (Inl TypeError, w)
      else case RequestConfig_update (rb_request_config rb) kwargs w of
             (Inl e, w1) \<Rightarrow> (Inl e, w1)
           | (Inr u, w1) \<Rightarrow>
               (case RequestService_verb ev method (rb_request rb) endpoint
                       (parameters (rb_request_config rb) w1) w1 of
                  (Inl e, w2) \<Rightarrow> (Inl e, w2)
                | (Inr r, w2) \<Rightarrow> (Inr (rb\<lparr>rb_response := Some r\<rparr>), w2)))"

definition RequestBuilder_get where "RequestBuilder_get ev = RequestBuilder_verb ev GET"
definition RequestBuilder_post where "RequestBuilder_post ev = RequestBuilder_verb ev POST"
definition RequestBuilder_put where "RequestBuilder_put ev = RequestBuilder_verb ev PUT"
definition RequestBuilder_delete where "RequestBuilder_delete ev = RequestBuilder_verb ev DELETE"
definition RequestBuilder_patch where "RequestBuilder_patch ev = RequestBuilder_verb ev PATCH"
definition RequestBuilder_head where "RequestBuilder_head ev = RequestBuilder_verb ev HEAD"
definition RequestBuilder_options where "RequestBuilder_options ev = RequestBuilder_verb ev OPTIONS"
definition RequestBuilder_trace where "RequestBuilder_trace ev = RequestBuilder_verb ev TRACE"
definition RequestBuilder_connect where "RequestBuilder_connect ev = RequestBuilder_verb ev CONNECT"

definition RequestBuilder_close :: "RequestBuilder \<Rightarrow> world \<Rightarrow> RequestBuilder \<times> world" where
  "RequestBuilder_close rb w = (rb, w)"

definition RequestBuilder_clear :: "RequestBuilder \<Rightarrow> world \<Rightarrow> RequestBuilder \<times> world" where
  "RequestBuilder_clear rb w = (rb, RequestConfig_clear (rb_request_config rb) w)"

definition RequestBuilder_copy :: "RequestBuilder \<Rightarrow> world \<Rightarrow> RequestBuilder \<times> world" where
  "RequestBuilder_copy rb w = (rb, snd (RequestConfig_copy (rb_request_config rb) w))"

record ExpectBuilder =
  eb_response :: response

definition ExpectBuilder_init :: "response \<Rightarrow> ExpectBuilder" where
  "ExpectBuilder_init r = \<lparr>eb_response = r\<rparr>"

definition RequestBuilder_then :: "RequestBuilder \<Rightarrow> error + ExpectBuilder" where
  "RequestBuilder_then rb =
     (case rb_response rb of
        None \<Rightarrow> Inl (AttributeError ''_RequestBuilder__response'')
      | Some r \<Rightarrow> Inr (ExpectBuilder_init r))"

text \<open>The operations of a dispatcher other than the verbs.\<close>

datatype plain_op = Close | ClearConfig | CopyConfig

fun apply_plain_op :: "plain_op \<Rightarrow> RequestBuilder \<Rightarrow> world \<Rightarrow> RequestBuilder \<times> world" where
  "apply_plain_op Close rb w = RequestBuilder_close rb w"
| "apply_plain_op ClearConfig rb w = RequestBuilder_clear rb w"
| "apply_plain_op CopyConfig rb w = RequestBuilder_copy rb w"

fun apply_plain_ops :: "plain_op list \<Rightarrow> RequestBuilder \<Rightarrow> world \<Rightarrow> RequestBuilder \<times> world" where
  "apply_plain_ops [] rb w = (rb, w)"
| "apply_plain_ops (x # xs) rb w =
     (let (rb1, w1) = apply_plain_op x rb w in apply_plain_ops xs rb1 w1)"

section \<open>expect.py: the expectations\<close>

text \<open>\<open>assert_that(v).is_true()\<close> raises \<open>AssertionError\<close> unless \<open>v\<close> is true,
  \<open>assert_that(a).is_equal_to(b)\<close> raises it when \<open>a != b\<close>, and
  \<open>assert_that(c).contains(x)\<close> when \<open>x not in c\<close>. \<close>

datatype JsonPathMatch = JsonPathMatch (match_value: json)

definition Expect_status :: "response \<Rightarrow> int \<Rightarrow> error + unit" where
  "Expect_status r code = (if code \<noteq> status_code r then Inl AssertionError else Inr ())"

definition Expect_status_ok :: "response \<Rightarrow> error + unit" where
  "Expect_status_ok r = (if Response_ok r then Inr () else Inl AssertionError)"

definition Expect_json_contains :: "response \<Rightarrow> json \<Rightarrow> error + unit" where
  "Expect_json_contains r j =
     (case resp_json r of
        Inl e \<Rightarrow> Inl e
      | Inr body \<Rightarrow>
          (case py_in j body of
             Inl e \<Rightarrow> Inl e
           | Inr found \<Rightarrow> if \<not> found then Inl AssertionError else Inr ()))"

definition json_path_matches :: "env \<Rightarrow> response \<Rightarrow> string \<Rightarrow> error + JsonPathMatch list" where
  "json_path_matches ev r json_path_expr =
     (if json_path_expr = [] then Inr []
      else case resp_json r of
             Inl e \<Rightarrow> Inl e
           | Inr body \<Rightarrow>
               (case findall ev json_path_expr body of
                  Inl e \<Rightarrow> Inl e
                | Inr matches \<Rightarrow> Inr (map JsonPathMatch matches)))"

fun json_path_loop :: "JsonPathMatch list \<Rightarrow> json \<Rightarrow> error + unit" where
  "json_path_loop [] expected_value = Inr ()"
| "json_path_loop (m # ms) expected_value =
     (if \<not> py_eq (match_value m) expected_value then Inl AssertionError
      else json_path_loop ms expected_value)"

definition Expect_json_path :: "env \<Rightarrow> response \<Rightarrow> string \<Rightarrow> json \<Rightarrow> error + unit" where
  "Expect_json_path ev r json_path_expr expected_value =
     (case json_path_matches ev r json_path_expr of
        Inl e \<Rightarrow> Inl e
      | Inr ms \<Rightarrow> json_path_loop ms expected_value)"

section \<open>A transport and a path matcher for the examples\<close>

text \<open>A server that answers every request with status 200 and the body
  \<open>{"userId": 1, "id": 1}\<close>, a join that appends a path with a leading slash to a base
  URL without a path, and a matcher for the paths \<open>$.name\<close>, which selects the member
  \<open>name\<close> of a JSON object.\<close>

definition example_response :: response where
  "example_response =
     \<lparr>status_code = 200, resp_json = Inr (JObj [(''userId'', JInt 1), (''id'', JInt 1)])\<rparr>"

definition example_env :: env where
  "example_env =
     \<lparr>urljoin = (\<lambda>base endpoint.
        case base of PStr b \<Rightarrow> Inr (b @ endpoint) | PNone \<Rightarrow> Inr endpoint | _ \<Rightarrow> Inl TypeError),
      session_request = (\<lambda>method url kwargs. Inr example_response),
      json_dumps = (\<lambda>v. ''{}''),
      findall = (\<lambda>expr body.
        case body of
          JObj d \<Rightarrow> (case map_of d (drop 2 expr) of Some v \<Rightarrow> Inr [v] | None \<Rightarrow> Inr [])
        | _ \<Rightarrow> Inr [])\<rparr>"

definition empty_world :: world where
  "empty_world = \<lparr>stores = [], sent = []\<rparr>"

section \<open>Properties of the configuration store\<close>

lemma parameters_set_parameters:
  "s < length (stores w) \<Longrightarrow> parameters s (set_parameters s ps w) = ps"
  by (simp add: parameters_def set_parameters_def)

lemma parameters_set_parameters_other:
  "r \<noteq> s \<Longrightarrow> parameters r (set_parameters s ps w) = parameters r w"
  by (simp add: parameters_def set_parameters_def)

lemma length_stores_set_parameters:
  "length (stores (set_parameters s ps w)) = length (stores w)"
  by (simp add: set_parameters_def)

lemma sent_set_parameters: "sent (set_parameters s ps w) = sent w"
  by (simp add: set_parameters_def)

lemma setitem_parameters:
  "s < length (stores w) \<Longrightarrow>
   parameters s (RequestConfig_setitem s k v w) = AList.update k v (parameters s w)"
  by (simp add: RequestConfig_setitem_def parameters_set_parameters)

lemma set_parameters_setitem:
  "set_parameters s ps (RequestConfig_setitem s k v w) = set_parameters s ps w"
  by (simp add: RequestConfig_setitem_def set_parameters_def)

lemma dict_update_Nil: "dict_update d [] = d"
  by (simp add: dict_update_def)

lemma dict_update_Cons:
  "dict_update d ((k, v) # kw) = dict_update (AList.update k v d) kw"
  by (simp add: dict_update_def)

lemma map_of_dict_update: "map_of (dict_update d kw) = map_of d ++ map_of (rev kw)"
proof (induction kw arbitrary: d)
  case Nil
  show ?case by (simp add: dict_update_Nil)
next
  case (Cons p kw)
  obtain k v where p: "p = (k, v)" by (cases p)
  have "map_of (dict_update d (p # kw)) = map_of (AList.update k v d) ++ map_of (rev kw)"
    using Cons.IH [of "AList.update k v d"] by (simp add: p dict_update_Cons)
  also have "\<dots> = map_of d ++ map_of (rev (p # kw))"
    by (simp add: p update_conv' map_add_def fun_eq_iff split: option.splits)
  finally show ?case .
qed

lemma map_of_dict_update_distinct:
  assumes "distinct (map fst kw)" and "(k, v) \<in> set kw"
  shows "map_of (dict_update d kw) k = Some v"
proof -
  have "distinct (map fst (rev kw))"
    using assms(1) by (simp add: rev_map [symmetric])
  moreover have "(k, v) \<in> set (rev kw)"
    using assms(2) by simp
  ultimately have "map_of (rev kw) k = Some v"
    by (rule map_of_is_SomeI)
  then show ?thesis
    by (simp add: map_of_dict_update)
qed

lemma update_new_key: "k \<notin> fst ` set al \<Longrightarrow> AList.update k v al = al @ [(k, v)]"
  by (induction al) auto

lemma dict_update_fresh:
  "distinct (map fst d) \<Longrightarrow> fst ` set pre \<inter> fst ` set d = {} \<Longrightarrow>
   dict_update pre d = pre @ d"
proof (induction d arbitrary: pre)
  case Nil
  show ?case by (simp add: dict_update_Nil)
next
  case (Cons p d)
  obtain k v where p: "p = (k, v)" by (cases p)
  have fresh: "k \<notin> fst ` set pre"
    using Cons.prems(2) by (auto simp: p)
  have "fst ` set (pre @ [(k, v)]) \<inter> fst ` set d = {}"
    using Cons.prems by (auto simp: p)
  moreover have "distinct (map fst d)"
    using Cons.prems(1) by simp
  ultimately have "dict_update (pre @ [(k, v)]) d = (pre @ [(k, v)]) @ d"
    by (rule Cons.IH [rotated])
  then show ?case
    by (simp add: p dict_update_Cons update_new_key [OF fresh])
qed


lemma update_loop_rejects:
  assumes "s < length (stores w)" and "list_all (\<lambda>(k, v). accepted v) pre"
    and "\<not> accepted v"
  shows "RequestConfig_update_loop s (pre @ (k, v) # post) w =
         (Inl (ValueError (RequestConfig_update_message k)),
          set_parameters s (dict_update (parameters s w) pre) w)"
  using assms
proof (induction pre arbitrary: w)
  case Nil
  then show ?case
    by (simp add: accepted_def set_parameters_def parameters_def dict_update_Nil)
next
  case (Cons p pre)
  obtain k' v' where p: "p = (k', v')" by (cases p)
  have acc: "accepted v'" and rest: "list_all (\<lambda>(k, v). accepted v) pre"
    using Cons.prems(2) by (simp_all add: p)
  have len: "s < length (stores (RequestConfig_setitem s k' v' w))"
    using Cons.prems(1) by (simp add: RequestConfig_setitem_def length_stores_set_parameters)
  have step: "RequestConfig_update_loop s ((p # pre) @ (k, v) # post) w =
      RequestConfig_update_loop s (pre @ (k, v) # post) (RequestConfig_setitem s k' v' w)"
    using acc by (auto simp: p accepted_def)
  show ?case
    unfolding step using Cons.IH [OF len rest Cons.prems(3)] Cons.prems(1)
    by (simp add: p setitem_parameters set_parameters_setitem dict_update_Cons)
qed


lemma update_rejects:
  assumes "s < length (stores w)" and "binds [''self''] (pre @ (k, v) # post)"
    and "list_all (\<lambda>(k, v). accepted v) pre" and "\<not> accepted v"
  shows "RequestConfig_update s (pre @ (k, v) # post) w =
         (Inl (ValueError (RequestConfig_update_message k)),
          set_parameters s (dict_update (parameters s w) pre) w)"
  using assms(2) update_loop_rejects [OF assms(1,3,4)]
  by (simp add: RequestConfig_update_def)


text \<open>Frame: a mutation of one store leaves every other store, the number of stores and
  the record of sent requests as they were.\<close>

lemma update_loop_frame:
  "length (stores (snd (RequestConfig_update_loop s kw w))) = length (stores w) \<and>
   sent (snd (RequestConfig_update_loop s kw w)) = sent w \<and>
   (r \<noteq> s \<longrightarrow> parameters r (snd (RequestConfig_update_loop s kw w)) = parameters r w)"
proof (induction kw arbitrary: w)
  case Nil
  show ?case by simp
next
  case (Cons p kw)
  obtain k v where p: "p = (k, v)" by (cases p)
  show ?case
    using Cons.IH [of "RequestConfig_setitem s k v w"]
    by (simp add: p RequestConfig_setitem_def length_stores_set_parameters
        sent_set_parameters parameters_set_parameters_other)
qed

lemma update_frame:
  "length (stores (snd (RequestConfig_update s kw w))) = length (stores w) \<and>
   sent (snd (RequestConfig_update s kw w)) = sent w \<and>
   (r \<noteq> s \<longrightarrow> parameters r (snd (RequestConfig_update s kw w)) = parameters r w)"
  using update_loop_frame [of s kw w r] by (simp add: RequestConfig_update_def)

lemma store_op_frame:
  "r \<noteq> s \<Longrightarrow> parameters r (apply_store_op x s w) = parameters r w"
  by (cases x)
    (simp_all add: RequestConfig_setitem_def RequestConfig_clear_def
      parameters_set_parameters_other update_frame)

text \<open>The stores keep the keys of a dict distinct.\<close>

lemma update_loop_keeps_distinct:
  "s < length (stores w) \<Longrightarrow> distinct (map fst (parameters s w)) \<Longrightarrow>
   distinct (map fst (parameters s (snd (RequestConfig_update_loop s kw w))))"
proof (induction kw arbitrary: w)
  case Nil
  then show ?case by simp
next
  case (Cons p kw)
  obtain k v where p: "p = (k, v)" by (cases p)
  have len: "s < length (stores (RequestConfig_setitem s k v w))"
    using Cons.prems(1) by (simp add: RequestConfig_setitem_def length_stores_set_parameters)
  have "distinct (map fst (parameters s (RequestConfig_setitem s k v w)))"
    using Cons.prems by (simp add: setitem_parameters distinct_update)
  then show ?case
    using Cons.IH [OF len] Cons.prems(2) by (simp add: p)
qed

lemma update_keeps_distinct:
  "s < length (stores w) \<Longrightarrow> distinct (map fst (parameters s w)) \<Longrightarrow>
   distinct (map fst (parameters s (snd (RequestConfig_update s kw w))))"
  using update_loop_keeps_distinct [of s w kw] by (simp add: RequestConfig_update_def)

lemma store_op_keeps_distinct:
  "s < length (stores w) \<Longrightarrow> distinct (map fst (parameters s w)) \<Longrightarrow>
   distinct (map fst (parameters s (apply_store_op x s w)))"
  by (cases x)
    (simp_all add: setitem_parameters distinct_update update_keeps_distinct
      RequestConfig_clear_def parameters_set_parameters)

lemma copy_eq:
  "RequestConfig_copy s w =
     (length (stores w), w\<lparr>stores := stores w @ [dict_update [] (parameters s w)]\<rparr>)"
  if "s < length (stores w)"
  using that
  by (simp add: RequestConfig_copy_def RequestConfig_init_def set_parameters_def
      parameters_def nth_append)

lemma update_single_entry:
  "s < length (stores w) \<Longrightarrow> k \<noteq> ''self'' \<Longrightarrow>
   RequestConfig_update s [(k, v)] w =
     (if accepted v then (Inr (), RequestConfig_setitem s k v w)
      else (Inl (ValueError (RequestConfig_update_message k)), w))"
  by (auto simp: RequestConfig_update_def binds_def accepted_def)

text \<open>
  C6. \<open>update\<close> should accept every value that is a string, a number, a boolean, a
  mapping or a sequence. A tuple is a sequence, and the signature of \<open>update\<close> and the
  docstring of \<open>auth\<close> name it, but the test in the loop lists \<open>list\<close> only:
  \<open>update(auth=('u', 'p'))\<close> raises the configuration error (\<open>ValueError\<close>) and stores
  nothing, while the setter \<open>auth(('u', 'p'))\<close> of the builder stores the same value.
\<close>

theorem tuple_value_rejected:
  "RequestConfig_update 0 [(''auth'', PTuple [PStr ''u'', PStr ''p''])]
       \<lparr>stores = [[]], sent = []\<rparr> =
     (Inl (ValueError (RequestConfig_update_message ''auth'')), \<lparr>stores = [[]], sent = []\<rparr>) \<and>
   ConfigBuilder_auth (PTuple [PStr ''u'', PStr ''p''])
       \<lparr>cb_request_specs = RequestSpecs_init, cb_request_config = 0\<rparr>
       \<lparr>stores = [[]], sent = []\<rparr> =
     (\<lparr>cb_request_specs = RequestSpecs_init\<lparr>spec_auth := PTuple [PStr ''u'', PStr ''p'']\<rparr>,
       cb_request_config = 0\<rparr>,
      \<lparr>stores = [[(''auth'', PTuple [PStr ''u'', PStr ''p''])]], sent = []\<rparr>)"
  by (simp add: RequestConfig_update_def binds_def isinstance_def ConfigBuilder_auth_def
      RequestConfig_setitem_def set_parameters_def parameters_def Let_def)

text \<open>
  C9. \<open>update\<close> is not atomic on error: when a later entry has a disallowed value, the
  error is raised and the entries before it are already in the store. The keyword
  arguments are those of a call that is bound: their names are distinct and none is
  \<open>self\<close>.
\<close>

theorem update_not_atomic:
  assumes "s < length (stores w)"
    and "binds [''self''] (pre @ (k, v) # post)"
    and "distinct (map fst (pre @ (k, v) # post))"
    and "list_all (\<lambda>(k, v). accepted v) pre" and "\<not> accepted v"
  shows "\<exists>w'. RequestConfig_update s (pre @ (k, v) # post) w =
                (Inl (ValueError (RequestConfig_update_message k)), w') \<and>
              parameters s w' = dict_update (parameters s w) pre \<and>
              (\<forall>(k', v') \<in> set pre. RequestConfig_getitem s k' w' = Inr v')"
proof -
  let ?w' = "set_parameters s (dict_update (parameters s w) pre) w"
  have d: "distinct (map fst pre)"
    using assms(3) by simp
  have run: "RequestConfig_update s (pre @ (k, v) # post) w =
      (Inl (ValueError (RequestConfig_update_message k)), ?w')"
    using assms(1,2,4,5) by (rule update_rejects)
  have ps: "parameters s ?w' = dict_update (parameters s w) pre"
    using assms(1) by (rule parameters_set_parameters)
  have "RequestConfig_getitem s k' ?w' = Inr v'" if "(k', v') \<in> set pre" for k' v'
    using map_of_dict_update_distinct [OF d that, of "parameters s w"]
    by (simp add: RequestConfig_getitem_def ps)
  then have "\<forall>(k', v') \<in> set pre. RequestConfig_getitem s k' ?w' = Inr v'"
    by blast
  with run ps show ?thesis
    by blast
qed

theorem update_not_atomic_witness:
  "(0::nat) < length (stores \<lparr>stores = [[]], sent = []\<rparr>) \<and>
   binds [''self'']
     ([(''stream'', PBool True)] @ (''data'', PBytes ''x'') # [(''verify'', PBool False)]) \<and>
   distinct (map fst
     ([(''stream'', PBool True)] @ (''data'', PBytes ''x'') # [(''verify'', PBool False)])) \<and>
   list_all (\<lambda>(k, v). accepted v) [(''stream'', PBool True)] \<and>
   \<not> accepted (PBytes ''x'') \<and>
   RequestConfig_getitem 0 ''stream'' \<lparr>stores = [[]], sent = []\<rparr> = Inl (KeyError ''stream'') \<and>
   (\<exists>w'. RequestConfig_update 0 ([(''stream'', PBool True)] @ (''data'', PBytes ''x'') # [(''verify'', PBool False)])
            \<lparr>stores = [[]], sent = []\<rparr> =
           (Inl (ValueError (RequestConfig_update_message ''data'')), w') \<and>
         parameters 0 w' = dict_update (parameters 0 \<lparr>stores = [[]], sent = []\<rparr>) [(''stream'', PBool True)] \<and>
         (\<forall>(k', v') \<in> set [(''stream'', PBool True)]. RequestConfig_getitem 0 k' w' = Inr v'))"
proof -
  have h1: "(0::nat) < length (stores \<lparr>stores = [[]], sent = []\<rparr>)"
    by simp
  have h2: "binds [''self'']
      ([(''stream'', PBool True)] @ (''data'', PBytes ''x'') # [(''verify'', PBool False)])"
    by (simp add: binds_def)
  have h3: "distinct (map fst
      ([(''stream'', PBool True)] @ (''data'', PBytes ''x'') # [(''verify'', PBool False)]))"
    by simp
  have h4: "list_all (\<lambda>(k, v). accepted v) [(''stream'', PBool True)]"
    by (simp add: accepted_def isinstance_def)
  have h5: "\<not> accepted (PBytes ''x'')"
    by (simp add: accepted_def isinstance_def)
  have h6: "RequestConfig_getitem 0 ''stream'' \<lparr>stores = [[]], sent = []\<rparr> = Inl (KeyError ''stream'')"
    by (simp add: RequestConfig_getitem_def parameters_def)
  show ?thesis
    using h1 h2 h3 h4 h5 h6 update_not_atomic [OF h1 h2 h3 h4 h5]
    by blast
qed

text \<open>
  C8. \<open>copy()\<close> of a store returns a new store with the same entries, leaves every
  existing store as it was, and afterwards a \<open>set\<close>, \<open>update\<close> or \<open>clear\<close> applied to one
  of the two stores leaves the entries of the other unchanged.
\<close>

theorem copy_independent:
  assumes "s < length (stores w)" and "distinct (map fst (parameters s w))"
    and "RequestConfig_copy s w = (c, w')"
  shows "c = length (stores w) \<and> c \<noteq> s \<and> length (stores w') = Suc (length (stores w)) \<and>
         parameters c w' = parameters s w \<and>
         (\<forall>r < length (stores w). parameters r w' = parameters r w) \<and>
         (\<forall>x. parameters s (apply_store_op x c w') = parameters s w' \<and>
              parameters c (apply_store_op x s w') = parameters c w')"
proof -
  have "dict_update [] (parameters s w) = [] @ parameters s w"
    using assms(2) by (intro dict_update_fresh) simp_all
  then have eq: "c = length (stores w)"
      "w' = w\<lparr>stores := stores w @ [parameters s w]\<rparr>"
    using assms(3) copy_eq [OF assms(1)] by simp_all
  have neq: "c \<noteq> s"
    using assms(1) eq(1) by simp
  have "parameters c w' = parameters s w"
    by (simp add: eq parameters_def)
  moreover have "\<forall>r < length (stores w). parameters r w' = parameters r w"
    by (simp add: eq parameters_def nth_append)
  moreover have "\<forall>x. parameters s (apply_store_op x c w') = parameters s w' \<and>
      parameters c (apply_store_op x s w') = parameters c w'"
    using neq store_op_frame [of s c] store_op_frame [of c s] by simp
  ultimately show ?thesis
    using eq neq by simp
qed

theorem copy_independent_witness:
  "(0::nat) < length (stores \<lparr>stores = [[(''params'', PDict [(''a'', PInt 1)])]], sent = []\<rparr>) \<and>
   distinct (map fst (parameters 0 \<lparr>stores = [[(''params'', PDict [(''a'', PInt 1)])]], sent = []\<rparr>)) \<and>
   RequestConfig_copy 0 \<lparr>stores = [[(''params'', PDict [(''a'', PInt 1)])]], sent = []\<rparr> =
     (1, \<lparr>stores = [[(''params'', PDict [(''a'', PInt 1)])], [(''params'', PDict [(''a'', PInt 1)])]],
          sent = []\<rparr>) \<and>
   parameters 1 \<lparr>stores = [[(''params'', PDict [(''a'', PInt 1)])], [(''params'', PDict [(''a'', PInt 1)])]],
                 sent = []\<rparr> =
     parameters 0 \<lparr>stores = [[(''params'', PDict [(''a'', PInt 1)])]], sent = []\<rparr> \<and>
   parameters 0 (apply_store_op Clear 1
       \<lparr>stores = [[(''params'', PDict [(''a'', PInt 1)])], [(''params'', PDict [(''a'', PInt 1)])]],
        sent = []\<rparr>) =
     [(''params'', PDict [(''a'', PInt 1)])]"
proof -
  let ?w = "\<lparr>stores = [[(''params'', PDict [(''a'', PInt 1)])]], sent = []\<rparr>"
  let ?w' = "\<lparr>stores = [[(''params'', PDict [(''a'', PInt 1)])], [(''params'', PDict [(''a'', PInt 1)])]],
              sent = []\<rparr>"
  have h1: "(0::nat) < length (stores ?w)"
    by simp
  have h2: "distinct (map fst (parameters 0 ?w))"
    by (simp add: parameters_def)
  have h3: "RequestConfig_copy 0 ?w = (1, ?w')"
    by (simp add: RequestConfig_copy_def RequestConfig_init_def set_parameters_def
        parameters_def dict_update_def)
  have h4: "parameters 0 ?w' = [(''params'', PDict [(''a'', PInt 1)])]"
    by (simp add: parameters_def)
  show ?thesis
    using h1 h2 h3 h4 copy_independent [OF h1 h2 h3]
    by metis
qed

section \<open>Properties of the dispatcher\<close>

lemma binds_subset: "binds names kw \<Longrightarrow> set names' \<subseteq> set names \<Longrightarrow> binds names' kw"
  by (auto simp: binds_def list_all_iff)


lemma request_snd:
  "snd (RequestService_request ev svc m ep kw w) =
     (case urljoin ev (service_base_url svc) ep of
        Inl e \<Rightarrow> w
      | Inr url \<Rightarrow> if session_binds kw then w\<lparr>sent := sent w @ [(m, url, kw)]\<rparr> else w)"
  by (simp add: RequestService_request_def Let_def split: sum.splits error.splits)

lemma request_fst:
  "fst (RequestService_request ev svc m ep kw w) =
   fst (RequestService_request ev svc m ep kw w0)"
  by (simp add: RequestService_request_def Let_def split: sum.splits error.splits)

lemma service_verb_snd:
  "snd (RequestService_verb ev m svc ep kw w) =
     (if binds [''self'', ''method'', ''endpoint''] kw
      then (case urljoin ev (service_base_url svc) ep of
              Inl e \<Rightarrow> w
            | Inr url \<Rightarrow> if session_binds kw then w\<lparr>sent := sent w @ [(m, url, kw)]\<rparr> else w)
      else w)"
proof (cases "binds [''self'', ''method'', ''endpoint''] kw")
  case True
  moreover from True have "binds [''self'', ''endpoint''] kw"
    by (rule binds_subset) simp
  ultimately show ?thesis
    by (simp add: RequestService_verb_def request_snd)
next
  case False
  then show ?thesis
    by (simp add: RequestService_verb_def)
qed

lemma service_verb_stores: "stores (snd (RequestService_verb ev m svc ep kw w)) = stores w"
  by (simp add: service_verb_snd split: sum.splits)

lemma service_verb_fst:
  "fst (RequestService_verb ev m svc ep kw w) = fst (RequestService_verb ev m svc ep kw w0)"
  using request_fst [of ev svc m ep kw w w0]
  by (simp add: RequestService_verb_def)

lemma service_verb_extend:
  "snd (RequestService_verb ev m svc ep kw (w\<lparr>stores := stores w @ extra\<rparr>)) =
     (snd (RequestService_verb ev m svc ep kw w))
       \<lparr>stores := stores (snd (RequestService_verb ev m svc ep kw w)) @ extra\<rparr>"
  by (simp add: service_verb_snd split: sum.splits)

lemma setitem_extend:
  "s < length (stores w) \<Longrightarrow>
   RequestConfig_setitem s k v (w\<lparr>stores := stores w @ extra\<rparr>) =
     (RequestConfig_setitem s k v w)\<lparr>stores := stores (RequestConfig_setitem s k v w) @ extra\<rparr>"
  by (simp add: RequestConfig_setitem_def set_parameters_def parameters_def nth_append
      list_update_append1)

lemma update_loop_extend:
  "s < length (stores w) \<Longrightarrow>
   RequestConfig_update_loop s kw (w\<lparr>stores := stores w @ extra\<rparr>) =
     (fst (RequestConfig_update_loop s kw w),
      (snd (RequestConfig_update_loop s kw w))
        \<lparr>stores := stores (snd (RequestConfig_update_loop s kw w)) @ extra\<rparr>)"
proof (induction kw arbitrary: w)
  case Nil
  show ?case by simp
next
  case (Cons p kw)
  obtain k v where p: "p = (k, v)" by (cases p)
  have len: "s < length (stores (RequestConfig_setitem s k v w))"
    using Cons.prems by (simp add: RequestConfig_setitem_def length_stores_set_parameters)
  show ?case
    using Cons.IH [OF len] setitem_extend [OF Cons.prems, of k v extra]
    by (simp add: p)
qed

lemma update_extend:
  "s < length (stores w) \<Longrightarrow>
   RequestConfig_update s kw (w\<lparr>stores := stores w @ extra\<rparr>) =
     (fst (RequestConfig_update s kw w),
      (snd (RequestConfig_update s kw w))
        \<lparr>stores := stores (snd (RequestConfig_update s kw w)) @ extra\<rparr>)"
  by (simp add: RequestConfig_update_def update_loop_extend)

lemma verb_world:
  "length (stores (snd (RequestBuilder_verb ev m rb ep kw w))) = length (stores w) \<and>
   (\<forall>r. r \<noteq> rb_request_config rb \<longrightarrow>
        parameters r (snd (RequestBuilder_verb ev m rb ep kw w)) = parameters r w)"
proof -
  obtain r1 w1 where u: "RequestConfig_update (rb_request_config rb) kw w = (r1, w1)"
    by (cases "RequestConfig_update (rb_request_config rb) kw w")
  have w1: "length (stores w1) = length (stores w)"
      "\<And>r. r \<noteq> rb_request_config rb \<Longrightarrow> parameters r w1 = parameters r w"
    using update_frame [of "rb_request_config rb" kw w] u by simp_all
  obtain r2 w2 where v: "RequestService_verb ev m (rb_request rb) ep
      (parameters (rb_request_config rb) w1) w1 = (r2, w2)"
    by (cases "RequestService_verb ev m (rb_request rb) ep
      (parameters (rb_request_config rb) w1) w1")
  have w2: "stores w2 = stores w1"
    using service_verb_stores [of ev m "rb_request rb" ep "parameters (rb_request_config rb) w1" w1] v
    by simp
  have w2': "length (stores w2) = length (stores w)"
      "\<And>r. r \<noteq> rb_request_config rb \<Longrightarrow> parameters r w2 = parameters r w"
    using w1 w2 by (simp_all add: parameters_def)
  show ?thesis
    using w1 w2'
    by (auto simp: RequestBuilder_verb_def u v split: sum.splits)
qed

lemma verb_extend:
  assumes "rb_request_config rb < length (stores w)"
  shows "RequestBuilder_verb ev m rb ep kw (w\<lparr>stores := stores w @ extra\<rparr>) =
     (fst (RequestBuilder_verb ev m rb ep kw w),
      (snd (RequestBuilder_verb ev m rb ep kw w))
        \<lparr>stores := stores (snd (RequestBuilder_verb ev m rb ep kw w)) @ extra\<rparr>)"
proof (cases "binds [''self'', ''endpoint''] kw")
  case False
  then show ?thesis
    by (simp add: RequestBuilder_verb_def)
next
  case True
  let ?s = "rb_request_config rb"
  obtain r1 w1 where u: "RequestConfig_update ?s kw w = (r1, w1)"
    by (cases "RequestConfig_update ?s kw w")
  have u': "RequestConfig_update ?s kw (w\<lparr>stores := stores w @ extra\<rparr>) =
      (r1, w1\<lparr>stores := stores w1 @ extra\<rparr>)"
    using update_extend [OF assms, of kw extra] u by simp
  show ?thesis
  proof (cases r1)
    case (Inl e)
    then show ?thesis
      by (simp add: RequestBuilder_verb_def True u u')
  next
    case (Inr x)
    have len: "?s < length (stores w1)"
      using update_frame [of ?s kw w] u assms by simp
    then have ps: "parameters ?s (w1\<lparr>stores := stores w1 @ extra\<rparr>) = parameters ?s w1"
      by (simp add: parameters_def nth_append)
    let ?V = "\<lambda>x. RequestService_verb ev m (rb_request rb) ep (parameters ?s w1) x"
    obtain r2 w2 where v: "?V w1 = (r2, w2)"
      by (cases "?V w1")
    have "fst (?V (w1\<lparr>stores := stores w1 @ extra\<rparr>)) = r2"
      using service_verb_fst [of ev m "rb_request rb" ep "parameters ?s w1"
          "w1\<lparr>stores := stores w1 @ extra\<rparr>" w1] v
      by simp
    moreover have "snd (?V (w1\<lparr>stores := stores w1 @ extra\<rparr>)) =
        w2\<lparr>stores := stores w2 @ extra\<rparr>"
      using v service_verb_extend [of ev m "rb_request rb" ep "parameters ?s w1" w1 extra]
      by simp
    ultimately have v': "?V (w1\<lparr>stores := stores w1 @ extra\<rparr>) =
        (r2, w2\<lparr>stores := stores w2 @ extra\<rparr>)"
      by (metis prod.collapse)
    show ?thesis
      by (simp add: RequestBuilder_verb_def True u u' Inr ps v v' split: sum.splits)
  qed
qed

text \<open>
  C10. \<open>copy()\<close> of a dispatcher returns the same dispatcher, with the same store
  reference and the entries of every existing store unchanged: the copy of the store is
  only added to the heap, where nothing refers to it. A verb call made afterwards returns
  what it returns without the \<open>copy()\<close>, sends the same requests, and leaves every store
  that existed before in the same state.
\<close>

theorem RequestBuilder_copy_discards:
  assumes "rb_request_config rb < length (stores w)"
    and "RequestBuilder_copy rb w = (rb', w')"
  shows "rb' = rb \<and> rb_request_config rb' = rb_request_config rb \<and> sent w' = sent w \<and>
         (\<forall>r < length (stores w). parameters r w' = parameters r w) \<and>
         (\<forall>ev m ep kw.
            fst (RequestBuilder_verb ev m rb' ep kw w') = fst (RequestBuilder_verb ev m rb ep kw w) \<and>
            sent (snd (RequestBuilder_verb ev m rb' ep kw w')) =
              sent (snd (RequestBuilder_verb ev m rb ep kw w)) \<and>
            (\<forall>r < length (stores w).
               parameters r (snd (RequestBuilder_verb ev m rb' ep kw w')) =
               parameters r (snd (RequestBuilder_verb ev m rb ep kw w))))"
proof -
  let ?extra = "[dict_update [] (parameters (rb_request_config rb) w)]"
  have "RequestBuilder_copy rb w = (rb, w\<lparr>stores := stores w @ ?extra\<rparr>)"
    by (simp add: RequestBuilder_copy_def copy_eq [OF assms(1)])
  with assms(2) have "(rb', w') = (rb, w\<lparr>stores := stores w @ ?extra\<rparr>)"
    by (rule trans [OF sym])
  then have rb': "rb' = rb" and w': "w' = w\<lparr>stores := stores w @ ?extra\<rparr>"
    by blast+
  have frame: "\<forall>r < length (stores w). parameters r w' = parameters r w"
    by (simp add: w' parameters_def nth_append)
  have "fst (RequestBuilder_verb ev m rb ep kw w') = fst (RequestBuilder_verb ev m rb ep kw w) \<and>
      sent (snd (RequestBuilder_verb ev m rb ep kw w')) =
        sent (snd (RequestBuilder_verb ev m rb ep kw w)) \<and>
      (\<forall>r < length (stores w).
         parameters r (snd (RequestBuilder_verb ev m rb ep kw w')) =
         parameters r (snd (RequestBuilder_verb ev m rb ep kw w)))" for ev m ep kw
    using verb_world [of ev m rb ep kw w]
    by (simp add: w' verb_extend [OF assms(1)] parameters_def nth_append)
  then show ?thesis
    using frame by (simp add: rb' w')
qed

theorem RequestBuilder_copy_discards_witness:
  "rb_request_config (ConfigBuilder_when (fst (given PNone empty_world)))
     < length (stores (snd (given PNone empty_world))) \<and>
   RequestBuilder_copy (ConfigBuilder_when (fst (given PNone empty_world)))
       (snd (given PNone empty_world)) =
     (ConfigBuilder_when (fst (given PNone empty_world)), \<lparr>stores = [[], []], sent = []\<rparr>) \<and>
   fst (RequestBuilder_verb example_env GET (ConfigBuilder_when (fst (given PNone empty_world)))
         ''/posts'' [] \<lparr>stores = [[], []], sent = []\<rparr>) =
   fst (RequestBuilder_verb example_env GET (ConfigBuilder_when (fst (given PNone empty_world)))
         ''/posts'' [] (snd (given PNone empty_world)))"
proof -
  let ?rb = "ConfigBuilder_when (fst (given PNone empty_world))"
  let ?w = "snd (given PNone empty_world)"
  have h1: "rb_request_config ?rb < length (stores ?w)"
    by (simp add: given_def ConfigBuilder_init_def RequestConfig_init_def empty_world_def
        ConfigBuilder_when_def RequestBuilder_init_def)
  have h2: "RequestBuilder_copy ?rb ?w = (?rb, \<lparr>stores = [[], []], sent = []\<rparr>)"
    by (simp add: given_def ConfigBuilder_init_def RequestConfig_init_def empty_world_def
        ConfigBuilder_when_def RequestBuilder_init_def RequestBuilder_copy_def
        RequestConfig_copy_def set_parameters_def parameters_def dict_update_def)
  show ?thesis
    using h1 h2 RequestBuilder_copy_discards [OF h1 h2]
    by blast
qed





text \<open>The chain \<open>given(url).params({'a': 1}).when()\<close>, from an empty heap.\<close>

lemma builder_chain_example:
  "(case given (PStr ''http://x.test'') empty_world of
      (cb, w0) \<Rightarrow>
        (case ConfigBuilder_params (PDict [(''a'', PInt 1)]) cb w0 of
           (cb1, w1) \<Rightarrow> (ConfigBuilder_when cb1, w1))) =
     (\<lparr>rb_request = \<lparr>service_base_url = PStr ''http://x.test''\<rparr>, rb_request_config = 0,
       rb_response = None\<rparr>,
      \<lparr>stores = [[(''params'', PDict [(''a'', PInt 1)])]], sent = []\<rparr>)"
  by (simp add: given_def ConfigBuilder_init_def RequestConfig_init_def empty_world_def
      RequestSpecs_init_def ConfigBuilder_params_def ConfigBuilder_when_def
      RequestService_init_def RequestBuilder_init_def RequestConfig_setitem_def
      set_parameters_def parameters_def)



lemma plain_op_keeps_dispatcher: "fst (apply_plain_op x rb w) = rb"
  by (cases x)
    (simp_all add: RequestBuilder_close_def RequestBuilder_clear_def RequestBuilder_copy_def)

lemma plain_ops_keep_dispatcher: "fst (apply_plain_ops xs rb w) = rb"
proof (induction xs arbitrary: w)
  case Nil
  show ?case by simp
next
  case (Cons x xs)
  obtain rb1 w1 where step: "apply_plain_op x rb w = (rb1, w1)"
    by (cases "apply_plain_op x rb w")
  then have "rb1 = rb"
    using plain_op_keeps_dispatcher [of x rb w] by simp
  then show ?case
    using Cons.IH [of w1] by (simp add: step)
qed

lemma then_raises_iff:
  "RequestBuilder_then rb = Inl (AttributeError ''_RequestBuilder__response'') \<longleftrightarrow>
   rb_response rb = None"
  by (simp add: RequestBuilder_then_def split: option.splits)

text \<open>
  C2. On a dispatcher on which no verb has been called, \<open>then()\<close> raises: the dispatcher
  comes from \<open>when()\<close>, and \<open>close()\<close>, \<open>clear()\<close> and \<open>copy()\<close> do not create the response
  attribute, so reading it fails (\<open>AttributeError\<close>, the usage error of the interface).
\<close>

theorem then_before_verb:
  "RequestBuilder_then (fst (apply_plain_ops xs (ConfigBuilder_when cb) w)) =
     Inl (AttributeError ''_RequestBuilder__response'')"
  by (simp add: plain_ops_keep_dispatcher then_raises_iff ConfigBuilder_when_def
      RequestBuilder_init_def)

theorem then_before_verb_witness:
  "RequestBuilder_then
     (fst (apply_plain_ops [ClearConfig, CopyConfig, Close]
            (ConfigBuilder_when (fst (given (PStr ''http://x.test'') empty_world)))
            (snd (given (PStr ''http://x.test'') empty_world)))) =
   Inl (AttributeError ''_RequestBuilder__response'')"
  by (rule then_before_verb)

text \<open>
  C1. With both \<open>data\<close> and \<open>json\<close> in the configuration of a call, the dispatch should
  raise before the transport is reached. The check for it, \<open>_handle_data\<close>, is never
  called: the chain \<open>given(url).data('x').json_data({'a': 1}).when().post('/posts')\<close>
  returns normally and the session receives both fields, although \<open>_handle_data\<close> raises
  on these keyword arguments.
\<close>

theorem data_and_json_reach_transport:
  "(case given (PStr ''http://x.test'') empty_world of
      (cb, w0) \<Rightarrow>
        (case ConfigBuilder_data (PStr ''x'') cb w0 of
           (cb1, w1) \<Rightarrow>
             (case ConfigBuilder_json_data (PDict [(''a'', PInt 1)]) cb1 w1 of
                (cb2, w2) \<Rightarrow>
                  RequestBuilder_post example_env (ConfigBuilder_when cb2) ''/posts'' [] w2))) =
     (Inr \<lparr>rb_request = \<lparr>service_base_url = PStr ''http://x.test''\<rparr>, rb_request_config = 0,
           rb_response = Some example_response\<rparr>,
      \<lparr>stores = [[(''data'', PStr ''x''), (''json'', PDict [(''a'', PInt 1)])]],
       sent = [(POST, ''http://x.test/posts'',
                [(''data'', PStr ''x''), (''json'', PDict [(''a'', PInt 1)])])]\<rparr>) \<and>
   RequestService_handle_data example_env
       [(''data'', PStr ''x''), (''json'', PDict [(''a'', PInt 1)])] =
     Inl (ValueError data_json_message)"
  by (simp add: given_def ConfigBuilder_init_def RequestConfig_init_def empty_world_def
      RequestSpecs_init_def ConfigBuilder_data_def ConfigBuilder_json_data_def
      ConfigBuilder_when_def RequestService_init_def RequestBuilder_init_def
      RequestBuilder_post_def RequestBuilder_verb_def RequestService_verb_def
      RequestService_request_def RequestService_handle_data_def binds_def
      RequestConfig_update_def session_binds_def session_request_options_def
      RequestConfig_setitem_def set_parameters_def parameters_def example_env_def Let_def)

section \<open>Properties of the expectations\<close>

lemma status_ok_iff:
  "Expect_status_ok r = Inr () \<longleftrightarrow> \<not> (400 \<le> status_code r \<and> status_code r < 600)"
  by (simp add: Expect_status_ok_def Response_ok_def)

lemma status_ok_success:
  "status_code_is_success r \<Longrightarrow> Expect_status_ok r = Inr ()"
  by (simp add: status_ok_iff status_code_is_success_def)

text \<open>
  C3. \<open>status_ok()\<close> should succeed exactly for the status codes 200 to 299, as its
  docstring says and as \<open>_status_code_is_success\<close> tests. It asserts \<open>response.ok\<close>
  instead, which is true for every status outside 400 to 599: a response with status 304
  passes.
\<close>

theorem status_ok_passes_304:
  "Expect_status_ok \<lparr>status_code = 304, resp_json = Inl JSONDecodeError\<rparr> = Inr () \<and>
   \<not> status_code_is_success \<lparr>status_code = 304, resp_json = Inl JSONDecodeError\<rparr>"
  by (simp add: Expect_status_ok_def Response_ok_def status_code_is_success_def)

lemma json_path_loop_iff:
  "json_path_loop ms e = Inr () \<longleftrightarrow> (\<forall>m \<in> set ms. py_eq (match_value m) e)"
  by (induction ms) auto

lemma json_path_loop_cases:
  "json_path_loop ms e = Inr () \<or> json_path_loop ms e = Inl AssertionError"
  by (induction ms) auto

text \<open>
  C4. \<open>json_path(expr, expected)\<close> evaluates the expression against the parsed JSON body
  (an empty expression gives no match without looking at the body), succeeds exactly when
  the value of every match equals the expected value, raises the assertion mismatch
  otherwise, and so returns normally when there is no match.
\<close>

theorem json_path_all_matches:
  assumes "json_path_matches ev r expr = Inr ms"
  shows "(Expect_json_path ev r expr expected = Inr () \<longleftrightarrow>
            (\<forall>m \<in> set ms. py_eq (match_value m) expected)) \<and>
         (Expect_json_path ev r expr expected \<noteq> Inr () \<longrightarrow>
            Expect_json_path ev r expr expected = Inl AssertionError) \<and>
         (ms = [] \<longrightarrow> Expect_json_path ev r expr expected = Inr ()) \<and>
         (expr \<noteq> [] \<longrightarrow>
            (\<exists>body vs. resp_json r = Inr body \<and> findall ev expr body = Inr vs \<and>
                       ms = map JsonPathMatch vs))"
proof -
  have run: "Expect_json_path ev r expr expected = json_path_loop ms expected"
    by (simp add: Expect_json_path_def assms)
  have "\<exists>body vs. resp_json r = Inr body \<and> findall ev expr body = Inr vs \<and>
      ms = map JsonPathMatch vs" if "expr \<noteq> []"
    using assms that by (auto simp: json_path_matches_def split: sum.splits)
  then show ?thesis
    using json_path_loop_iff [of ms expected] json_path_loop_cases [of ms expected]
    by (auto simp: run)
qed

theorem json_path_all_matches_witness:
  "json_path_matches example_env example_response ''$.userId'' = Inr [JsonPathMatch (JInt 1)] \<and>
   py_eq (match_value (JsonPathMatch (JInt 1))) (JInt 1) \<and>
   Expect_json_path example_env example_response ''$.userId'' (JInt 1) = Inr () \<and>
   Expect_json_path example_env example_response ''$.userId'' (JInt 2) = Inl AssertionError \<and>
   json_path_matches example_env \<lparr>status_code = 200, resp_json = Inr (JObj [])\<rparr> ''$.userId'' = Inr [] \<and>
   Expect_json_path example_env \<lparr>status_code = 200, resp_json = Inr (JObj [])\<rparr> ''$.userId'' (JInt 1) =
     Inr ()"
proof -
  have h1: "json_path_matches example_env example_response ''$.userId'' =
      Inr [JsonPathMatch (JInt 1)]"
    by (simp add: json_path_matches_def example_env_def example_response_def)
  have h2: "json_path_matches example_env \<lparr>status_code = 200, resp_json = Inr (JObj [])\<rparr>
      ''$.userId'' = Inr []"
    by (simp add: json_path_matches_def example_env_def)
  have h3: "\<forall>m \<in> set [JsonPathMatch (JInt 1)]. py_eq (match_value m) (JInt 1)"
    by simp
  have h4: "\<not> (\<forall>m \<in> set [JsonPathMatch (JInt 1)]. py_eq (match_value m) (JInt 2))"
    by simp
  have h5: "py_eq (match_value (JsonPathMatch (JInt 1))) (JInt 1)"
    by simp
  show ?thesis
    using h1 h2 h3 h4 h5
      json_path_all_matches [OF h1, of "JInt 1"]
      json_path_all_matches [OF h1, of "JInt 2"]
      json_path_all_matches [OF h2, of "JInt 1"]
    by blast
qed

text \<open>
  C7. \<open>json_contains\<close> is not a recursive subset match. It asserts \<open>subset in body\<close>:
  against the body \<open>{"a": 1, "b": 2}\<close> the call \<open>json_contains({"a": 1})\<close> does not pass
  (the lookup of a dict among the keys of a dict raises \<open>TypeError\<close>).
\<close>

theorem json_contains_object_body_counterexample:
  "Expect_json_contains
     \<lparr>status_code = 200, resp_json = Inr (JObj [(''a'', JInt 1), (''b'', JInt 2)])\<rparr>
     (JObj [(''a'', JInt 1)]) = Inl TypeError"
  by (simp add: Expect_json_contains_def)

lemma py_eq_JObj: "py_eq x (JObj d) \<Longrightarrow> \<exists>e. x = JObj e \<and> length e = length d"
  by (cases x) simp_all

text \<open>
  C7, as amended. When the JSON body of the response is a sequence, \<open>json_contains(j)\<close>
  succeeds exactly when some element of the body equals \<open>j\<close>, and raises the assertion
  mismatch otherwise. Equality is exact: an element equal to a mapping is a mapping with
  the same number of keys.
\<close>

theorem json_contains_sequence_body:
  assumes "resp_json r = Inr (JList xs)"
  shows "(Expect_json_contains r j = Inr () \<longleftrightarrow> (\<exists>x \<in> set xs. py_eq x j)) \<and>
         (Expect_json_contains r j \<noteq> Inr () \<longrightarrow>
            Expect_json_contains r j = Inl AssertionError) \<and>
         (\<forall>d. j = JObj d \<and> Expect_json_contains r j = Inr () \<longrightarrow>
            (\<exists>e. JObj e \<in> set xs \<and> length e = length d))"
proof -
  have run: "Expect_json_contains r j =
      (if \<exists>x \<in> set xs. py_eq x j then Inr () else Inl AssertionError)"
    by (simp add: Expect_json_contains_def assms list_ex_iff)
  have c1: "Expect_json_contains r j = Inr () \<longleftrightarrow> (\<exists>x \<in> set xs. py_eq x j)"
    by (simp add: run)
  have c2: "Expect_json_contains r j \<noteq> Inr () \<longrightarrow>
      Expect_json_contains r j = Inl AssertionError"
    by (simp add: run)
  have c3: "\<exists>e. JObj e \<in> set xs \<and> length e = length d"
    if "j = JObj d" and "Expect_json_contains r j = Inr ()" for d
  proof -
    from that have "\<exists>x \<in> set xs. py_eq x (JObj d)"
      using run by (simp split: if_splits)
    then obtain x where "x \<in> set xs" and "py_eq x (JObj d)"
      by blast
    then show ?thesis
      using py_eq_JObj [of x d] by blast
  qed
  from c1 c2 c3 show ?thesis
    by blast
qed

theorem json_contains_sequence_body_witness:
  "resp_json \<lparr>status_code = 200,
              resp_json = Inr (JList [JObj [(''userId'', JInt 1), (''id'', JInt 1)],
                                      JObj [(''userId'', JInt 1), (''id'', JInt 2)]])\<rparr> =
     Inr (JList [JObj [(''userId'', JInt 1), (''id'', JInt 1)],
                 JObj [(''userId'', JInt 1), (''id'', JInt 2)]]) \<and>
   Expect_json_contains
     \<lparr>status_code = 200,
      resp_json = Inr (JList [JObj [(''userId'', JInt 1), (''id'', JInt 1)],
                              JObj [(''userId'', JInt 1), (''id'', JInt 2)]])\<rparr>
     (JObj [(''id'', JInt 2), (''userId'', JInt 1)]) = Inr () \<and>
   Expect_json_contains
     \<lparr>status_code = 200,
      resp_json = Inr (JList [JObj [(''userId'', JInt 1), (''id'', JInt 1)],
                              JObj [(''userId'', JInt 1), (''id'', JInt 2)]])\<rparr>
     (JObj [(''userId'', JInt 1)]) = Inl AssertionError"
proof -
  let ?xs = "[JObj [(''userId'', JInt 1), (''id'', JInt 1)],
              JObj [(''userId'', JInt 1), (''id'', JInt 2)]]"
  let ?r = "\<lparr>status_code = 200, resp_json = Inr (JList ?xs)\<rparr>"
  have h1: "resp_json ?r = Inr (JList ?xs)"
    by simp
  have h2: "\<exists>x \<in> set ?xs. py_eq x (JObj [(''id'', JInt 2), (''userId'', JInt 1)])"
    by simp
  have h3: "\<not> (\<exists>x \<in> set ?xs. py_eq x (JObj [(''userId'', JInt 1)]))"
    by simp
  show ?thesis
    using h1 h2 h3
      json_contains_sequence_body [OF h1, of "JObj [(''id'', JInt 2), (''userId'', JInt 1)]"]
      json_contains_sequence_body [OF h1, of "JObj [(''userId'', JInt 1)]"]
    by blast
qed

end
